theory Spec2Isabelle
  imports Main "HOL-Library.Word"
begin

section \<open>Machine integers of box.h\<close>

type_synonym uint8_t = "8 word"
type_synonym uint32_t = "32 word"
type_synonym uint64_t = "64 word"
type_synonym int32_t = "32 word"

text \<open>
  \<^verbatim>\<open>heif_item_id\<close> comes from heif.h, where it is a 32-bit unsigned integer.
\<close>

type_synonym heif_item_id = uint32_t

text \<open>
  The cast \<^verbatim>\<open>(int) n\<close> of a \<^verbatim>\<open>size_t\<close> value \<open>n\<close>: \<^verbatim>\<open>int\<close> has 32 bits, and the
  conversion keeps the low 32 bits of the value. The result is read as a signed number
  with \<^const>\<open>sint\<close>. The sizes here are lengths of vectors, given as natural numbers.
\<close>

definition int_of_size_t :: "nat \<Rightarrow> int32_t" where
  "int_of_size_t n = word_of_nat n"

section \<open>BoxHeader and Box\<close>

text \<open>
  \<^verbatim>\<open>class BoxHeader\<close>: the private fields \<^verbatim>\<open>m_size\<close>, \<^verbatim>\<open>m_type\<close>, \<^verbatim>\<open>m_uuid_type\<close> and the
  protected field \<^verbatim>\<open>m_header_size\<close>.
\<close>

record BoxHeader =
  m_size :: uint64_t
  m_type :: uint32_t
  m_uuid_type :: "uint8_t list"
  m_header_size :: uint32_t

text \<open>The member initialisers of \<^verbatim>\<open>BoxHeader\<close>: all fields zero, the uuid type empty.\<close>

definition BoxHeader_default :: BoxHeader where
  "BoxHeader_default =
     \<lparr>m_size = 0, m_type = 0, m_uuid_type = [], m_header_size = 0\<rparr>"

text \<open>
  \<^verbatim>\<open>class Box : public BoxHeader\<close> adds the vector \<^verbatim>\<open>m_children\<close> of shared pointers to
  boxes. A box is modelled by its header and the list of its children; the shared pointer
  to a child is the child itself.
\<close>

datatype Box = Box (box_header: BoxHeader) (m_children: "Box list")

text \<open>
  \<^verbatim>\<open>
  int append_child_box(const std::shared_ptr<Box>& box)
  {
    m_children.push_back(box);
    return (int) m_children.size() - 1;
  }
  \<close>
  The function changes the box it is called on and returns an \<^verbatim>\<open>int\<close>; the model returns
  the changed box and the returned number. The cast binds tighter than the subtraction, so
  the size is narrowed to \<^verbatim>\<open>int\<close> first and 1 is subtracted in \<^verbatim>\<open>int\<close>.
\<close>

definition Box_append_child_box :: "Box \<Rightarrow> Box \<Rightarrow> Box \<times> int" where
  "Box_append_child_box self box =
     (let children' = m_children self @ [box]
      in (Box (box_header self) children', sint (int_of_size_t (length children') - 1)))"

section \<open>Box\_idat\<close>

text \<open>
  \<^verbatim>\<open>
  int append_data(const std::vector<uint8_t>& data)
  {
    auto pos = m_data_for_writing.size();
    m_data_for_writing.insert(m_data_for_writing.end(), data.begin(), data.end());
    return (int) pos;
  }
  \<close>
  The state the function touches is the byte vector \<^verbatim>\<open>m_data_for_writing\<close>; the model
  takes it and returns it updated, with the returned number.
\<close>

definition Box_idat_append_data :: "uint8_t list \<Rightarrow> uint8_t list \<Rightarrow> uint8_t list \<times> int" where
  "Box_idat_append_data m_data_for_writing data =
     (let pos = length m_data_for_writing
      in (m_data_for_writing @ data, sint (int_of_size_t pos)))"

text \<open>
  The inline accessors of box.h that the lookups below use:
  \<^verbatim>\<open>uint32_t get_short_type() const { return m_type; }\<close> and
  \<^verbatim>\<open>const std::vector<std::shared_ptr<Box>>& get_all_child_boxes() const { return m_children; }\<close>.
\<close>

definition get_short_type :: "BoxHeader \<Rightarrow> uint32_t" where
  "get_short_type h = m_type h"


section \<open>Box\_iref\<close>

text \<open>
  \<^verbatim>\<open>struct Reference { BoxHeader header; heif_item_id from_item_ID;
  std::vector<heif_item_id> to_item_ID; }\<close>; the box holds the vector \<^verbatim>\<open>m_references\<close>.
\<close>

record Reference =
  header :: BoxHeader
  from_item_ID :: heif_item_id
  to_item_ID :: "heif_item_id list"

text \<open>
  Modelled from the spec: the body of \<^verbatim>\<open>Box_iref::get_references\<close>, which box.h only
  declares (\<^verbatim>\<open>std::vector<heif_item_id> get_references(heif_item_id itemID, uint32_t
  ref_type) const\<close>). The spec: ``\<^verbatim>\<open>get_references(item, type)\<close> returns the \<^verbatim>\<open>to_ids\<close> for the
  first reference whose \<^verbatim>\<open>from\<close> matches and type matches.'' The stored records are scanned
  in order; the type of a record is the short type of its header. The function returns a
  vector by value, and the vector is empty when the scan finds nothing.
\<close>

fun Box_iref_get_references ::
  "Reference list \<Rightarrow> heif_item_id \<Rightarrow> uint32_t \<Rightarrow> heif_item_id list" where
  "Box_iref_get_references [] itemID ref_type = []"
| "Box_iref_get_references (r # refs) itemID ref_type =
     (if from_item_ID r = itemID \<and> get_short_type (header r) = ref_type
      then to_item_ID r
      else Box_iref_get_references refs itemID ref_type)"

text \<open>A stored reference record matches a query when its source item and its type do.\<close>

definition ref_matches :: "heif_item_id \<Rightarrow> uint32_t \<Rightarrow> Reference \<Rightarrow> bool" where
  "ref_matches itemID ref_type r =
     (from_item_ID r = itemID \<and> get_short_type (header r) = ref_type)"

section \<open>Box\_ipma and Box\_ipco\<close>








section \<open>Facts about the cast to int\<close>

lemma sint_int_of_size_t_small:
  "n < 2 ^ 31 \<Longrightarrow> sint (int_of_size_t n) = int n"
  by (simp add: int_of_size_t_def signed_of_nat signed_take_bit_int_eq_self)

lemma sint_int_of_size_t_large:
  "2 ^ 31 \<le> n \<Longrightarrow> sint (int_of_size_t n) \<noteq> int n"
  using sint_lt [of "int_of_size_t n"] by simp

lemma int_of_size_t_Suc_minus_1:
  "int_of_size_t (Suc n) - 1 = int_of_size_t n"
  by (simp add: int_of_size_t_def)

section \<open>Box::append\_child\_box\<close>

text \<open>
  Claim C9, as the code has it. The call appends the given box to the end of the child
  list: the list grows by exactly one, every child that was there stays at its position,
  and the new last child is the given box; the header is untouched. The returned number is
  the 0-based index of the new child, that is the number of children before the call,
  whenever the new number of children fits the 32-bit \<^verbatim>\<open>int\<close> of the return type (at most
  \<open>2 ^ 31 - 1\<close> children after the call).
\<close>

theorem append_child_box_appends:
  "m_children (fst (Box_append_child_box self box)) = m_children self @ [box]
   \<and> box_header (fst (Box_append_child_box self box)) = box_header self
   \<and> length (m_children (fst (Box_append_child_box self box))) = Suc (length (m_children self))
   \<and> (\<forall>i < length (m_children self).
         m_children (fst (Box_append_child_box self box)) ! i = m_children self ! i)
   \<and> m_children (fst (Box_append_child_box self box)) ! length (m_children self) = box
   \<and> (length (m_children self) < 2 ^ 31 - 1 \<longrightarrow>
         snd (Box_append_child_box self box) = int (length (m_children self)))"
proof -
  have idx: "snd (Box_append_child_box self box) = int (length (m_children self))"
    if "length (m_children self) < 2 ^ 31 - 1"
  proof -
    from that have "length (m_children self) < 2 ^ 31" by simp
    then show ?thesis
      by (simp add: Box_append_child_box_def int_of_size_t_Suc_minus_1
          sint_int_of_size_t_small)
  qed
  show ?thesis
    using idx by (simp add: Box_append_child_box_def nth_append)
qed

theorem append_child_box_appends_witness:
  "Box_append_child_box (Box BoxHeader_default [Box BoxHeader_default []])
     (Box (BoxHeader_default\<lparr>m_type := 7\<rparr>) [])
   = (Box BoxHeader_default
        [Box BoxHeader_default [], Box (BoxHeader_default\<lparr>m_type := 7\<rparr>) []], 1)"
  using append_child_box_appends
    [of "Box BoxHeader_default [Box BoxHeader_default []]"
        "Box (BoxHeader_default\<lparr>m_type := 7\<rparr>) []"]
  by (simp add: prod_eq_iff Box.expand)

text \<open>
  The claim as written says that the returned number is always the number of children
  before the call. With \<open>2 ^ 31\<close> children before the call the new size is \<open>2 ^ 31 + 1\<close>,
  the cast gives \<open>- 2 ^ 31 + 1\<close>, and the call returns \<open>- 2 ^ 31\<close>.
\<close>

theorem append_child_box_index_counterexample:
  "snd (Box_append_child_box
          (Box BoxHeader_default (replicate (2 ^ 31) (Box BoxHeader_default [])))
          (Box BoxHeader_default []))
   = - 2147483648
   \<and> int (length (m_children
          (Box BoxHeader_default (replicate (2 ^ 31) (Box BoxHeader_default [])))))
   = 2147483648"
  by (simp add: Box_append_child_box_def int_of_size_t_def)

section \<open>Box\_idat::append\_data\<close>

text \<open>
  Claim C10. The call appends the given bytes to the end of the pending-write buffer and
  leaves the bytes that were there unchanged. It returns the size of the buffer before the
  call, which is the offset of the first appended byte, converted to a signed 32-bit
  \<^verbatim>\<open>int\<close>: the returned number is that offset exactly when the size before the call is
  below \<open>2 ^ 31\<close>, and it always lies in the range of \<^verbatim>\<open>int\<close>.
\<close>

theorem append_data_offset:
  "fst (Box_idat_append_data buf data) = buf @ data
   \<and> take (length buf) (fst (Box_idat_append_data buf data)) = buf
   \<and> drop (length buf) (fst (Box_idat_append_data buf data)) = data
   \<and> snd (Box_idat_append_data buf data) = sint (int_of_size_t (length buf))
   \<and> - (2 ^ 31) \<le> snd (Box_idat_append_data buf data)
   \<and> snd (Box_idat_append_data buf data) < 2 ^ 31
   \<and> (snd (Box_idat_append_data buf data) = int (length buf) \<longleftrightarrow> length buf < 2 ^ 31)"
proof -
  have r: "snd (Box_idat_append_data buf data) = sint (int_of_size_t (length buf))"
    by (simp add: Box_idat_append_data_def)
  have lo: "- (2 ^ 31) \<le> sint (int_of_size_t (length buf))"
    using sint_ge [of "int_of_size_t (length buf)"] by simp
  have hi: "sint (int_of_size_t (length buf)) < 2 ^ 31"
    using sint_lt [of "int_of_size_t (length buf)"] by simp
  have faithful: "sint (int_of_size_t (length buf)) = int (length buf) \<longleftrightarrow> length buf < 2 ^ 31"
    using sint_int_of_size_t_small [of "length buf"] sint_int_of_size_t_large [of "length buf"]
    by (cases "length buf < 2 ^ 31") simp_all
  show ?thesis
    using lo hi faithful by (simp add: r) (simp add: Box_idat_append_data_def)
qed

theorem append_data_offset_witness:
  "Box_idat_append_data [1, 2, 3] [4, 5] = ([1, 2, 3, 4, 5], 3)"
  using append_data_offset [of "[1, 2, 3]" "[4, 5]"]
  by (simp add: prod_eq_iff)

section \<open>Box\_iref::get\_references\<close>

lemma get_references_no_match:
  "\<forall>r \<in> set refs. \<not> ref_matches itemID ref_type r \<Longrightarrow>
   Box_iref_get_references refs itemID ref_type = []"
  by (induction refs) (auto simp: ref_matches_def)

lemma get_references_first_match:
  "i < length refs \<Longrightarrow> ref_matches itemID ref_type (refs ! i) \<Longrightarrow>
   \<forall>j < i. \<not> ref_matches itemID ref_type (refs ! j) \<Longrightarrow>
   Box_iref_get_references refs itemID ref_type = to_item_ID (refs ! i)"
proof (induction refs arbitrary: i)
  case Nil
  then show ?case by simp
next
  case (Cons r refs)
  show ?case
  proof (cases i)
    case 0
    with Cons.prems show ?thesis by (simp add: ref_matches_def)
  next
    case (Suc k)
    from Cons.prems(3) Suc have "\<not> ref_matches itemID ref_type r" by auto
    moreover have "\<forall>j < k. \<not> ref_matches itemID ref_type (refs ! j)"
      using Cons.prems(3) Suc by auto
    ultimately show ?thesis
      using Cons.IH [of k] Cons.prems(1,2) Suc by (auto simp: ref_matches_def)
  qed
qed

text \<open>
  Claim C8. For every list of stored reference records, \<^verbatim>\<open>get_references(item, type)\<close>
  returns the \<^verbatim>\<open>to_item_ID\<close> list of the first stored record whose \<^verbatim>\<open>from_item_ID\<close> is the
  item and whose header type is the type: if the record at position \<open>i\<close> matches and no
  record before it does, the result is that record's list. When no stored record matches,
  the result is the empty list.
\<close>

theorem get_references_first:
  "(\<forall>i < length refs.
      ref_matches itemID ref_type (refs ! i)
      \<and> (\<forall>j < i. \<not> ref_matches itemID ref_type (refs ! j))
      \<longrightarrow> Box_iref_get_references refs itemID ref_type = to_item_ID (refs ! i))
   \<and> ((\<forall>r \<in> set refs. \<not> ref_matches itemID ref_type r)
      \<longrightarrow> Box_iref_get_references refs itemID ref_type = [])"
  using get_references_first_match get_references_no_match by blast

theorem get_references_first_witness:
  "Box_iref_get_references
     [\<lparr>header = BoxHeader_default\<lparr>m_type := 5\<rparr>, from_item_ID = 2, to_item_ID = [9]\<rparr>,
      \<lparr>header = BoxHeader_default\<lparr>m_type := 7\<rparr>, from_item_ID = 2, to_item_ID = [1]\<rparr>,
      \<lparr>header = BoxHeader_default\<lparr>m_type := 7\<rparr>, from_item_ID = 2, to_item_ID = [3, 4]\<rparr>]
     2 7 = [1]
   \<and> Box_iref_get_references
     [\<lparr>header = BoxHeader_default\<lparr>m_type := 5\<rparr>, from_item_ID = 2, to_item_ID = [9]\<rparr>]
     2 7 = []"
proof -
  let ?r0 = "\<lparr>header = BoxHeader_default\<lparr>m_type := 5\<rparr>, from_item_ID = 2, to_item_ID = [9]\<rparr>"
  let ?r1 = "\<lparr>header = BoxHeader_default\<lparr>m_type := 7\<rparr>, from_item_ID = 2, to_item_ID = [1]\<rparr>"
  let ?r2 = "\<lparr>header = BoxHeader_default\<lparr>m_type := 7\<rparr>, from_item_ID = 2, to_item_ID = [3, 4]\<rparr>"
  have "Box_iref_get_references [?r0, ?r1, ?r2] 2 7 = to_item_ID ([?r0, ?r1, ?r2] ! 1)"
    using get_references_first [of "[?r0, ?r1, ?r2]" 2 7, THEN conjunct1, rule_format, of 1]
    by (simp del: Box_iref_get_references.simps
        add: ref_matches_def get_short_type_def BoxHeader_default_def)
  moreover have "Box_iref_get_references [?r0] 2 7 = []"
    using get_references_first [of "[?r0]" 2 7, THEN conjunct2]
    by (simp del: Box_iref_get_references.simps
        add: ref_matches_def get_short_type_def BoxHeader_default_def)
  ultimately show ?thesis
    by (simp del: Box_iref_get_references.simps)
qed

section \<open>Box\_ipco::get\_properties\_for\_item\_ID\<close>









end
